theory Spec2Isabelle
  imports Main "HOL-Library.AList"
begin

section \<open>Host values\<close>

text \<open>
  The links of \<^verbatim>\<open>src/index.mjs\<close> handle JavaScript values: the operation's variables, the
  parsed response body, header bags. A JavaScript object is modelled as an association list in
  insertion order (what \<^verbatim>\<open>Object.keys\<close> enumerates); a file-like value (\<^verbatim>\<open>File\<close>,
  \<^verbatim>\<open>Blob\<close>, \<^verbatim>\<open>ReactNativeFile\<close>) is an opaque handle with a name; \<open>JBigInt\<close> stands for
  the values \<^verbatim>\<open>JSON.stringify\<close> refuses.
\<close>

datatype jsfile = File (file_name: string) (file_data: string)

datatype json =
    JNull
  | JBool bool
  | JNum int
  | JStr string
  | JBigInt int
  | JFile jsfile
  | JArr "json list"
  | JObj "(string \<times> json) list"

type_synonym 'v object = "(string \<times> 'v) list"

text \<open>Object spread \<^verbatim>\<open>{ ...a, ...b }\<close>: the keys of \<open>a\<close> in their order, each key of \<open>b\<close>
  overwriting in place or appended. A property assignment \<^verbatim>\<open>o[k] = v\<close> is \<open>AList.update k v o\<close>.\<close>

definition spread :: "'v object \<Rightarrow> 'v object \<Rightarrow> 'v object" where
  "spread a b = fold (\<lambda>(k, v). AList.update k v) b a"

text \<open>Spreading a value that may be \<^verbatim>\<open>undefined\<close> contributes no key.\<close>

definition members :: "'v object option \<Rightarrow> 'v object" where
  "members obj = (case obj of None \<Rightarrow> [] | Some kvs \<Rightarrow> kvs)"

text \<open>\<^verbatim>\<open>a || b\<close> and the truth test \<^verbatim>\<open>if (s)\<close> on a value that is a string or \<^verbatim>\<open>undefined\<close>:
  the empty string is falsy.\<close>

definition truthy :: "string option \<Rightarrow> bool" where
  "truthy s = (case s of None \<Rightarrow> False | Some v \<Rightarrow> v \<noteq> [])"

text \<open>Template literals print a number in decimal and \<^verbatim>\<open>undefined\<close> by its name.\<close>

definition digit :: "nat \<Rightarrow> char" where
  "digit d = ''0123456789'' ! d"

function show_nat :: "nat \<Rightarrow> string" where
  "show_nat n = (if n < 10 then [digit n] else show_nat (n div 10) @ [digit (n mod 10)])"
  by pat_completeness auto
termination
  by (relation "measure id") auto

declare show_nat.simps [simp del]

definition String :: "string option \<Rightarrow> string" where
  "String s = (case s of None \<Rightarrow> ''undefined'' | Some v \<Rightarrow> v)"

section \<open>Responses and errors\<close>

text \<open>The response of the fetch capability, as far as the links read it:
  \<^verbatim>\<open>response.status\<close>, \<^verbatim>\<open>response.ok\<close>, \<^verbatim>\<open>response.statusText\<close> and the text that
  \<^verbatim>\<open>response.text()\<close> resolves to.\<close>

record response =
  status :: nat
  ok :: bool
  statusText :: string
  bodyText :: string

text \<open>A JavaScript error object with the properties the links attach to it.
  \<open>err_parseError\<close> holds the name and message of the wrapped error.\<close>

record js_error =
  err_name :: string
  err_message :: string
  err_response :: "response option"
  err_statusCode :: "nat option"
  err_result :: "json option"
  err_bodyText :: "string option"
  err_parseError :: "(string \<times> string) option"

definition host_error :: "string \<Rightarrow> string \<Rightarrow> js_error" where
  "host_error n m =
     \<lparr>err_name = n, err_message = m, err_response = None, err_statusCode = None,
      err_result = None, err_bodyText = None, err_parseError = None\<rparr>"

text \<open>\<^verbatim>\<open>new Error(message)\<close>.\<close>

definition new_Error :: "string \<Rightarrow> js_error" where
  "new_Error m = host_error ''Error'' m"

section \<open>Requests\<close>

text \<open>A \<^verbatim>\<open>FormData\<close> body is the sequence of its \<^verbatim>\<open>append\<close> calls: a text field
  (name, value) or a file field (name, file, filename).\<close>

datatype part = Field string string | FileField string jsfile string

datatype body = Text string | FormData "part list"

datatype abort_signal = AbortSignal

datatype abort_controller = NewAbortController

text \<open>The option bag handed to fetch. The keys the links read or write are fields
  (\<open>None\<close>: the key is absent); every other key of a caller's \<^verbatim>\<open>fetchOptions\<close> is in \<open>other\<close>.\<close>

record fetch_options =
  http_method :: "string option"
  headers :: "string object option"
  body :: "body option"
  credentials :: "string option"
  signal :: "abort_signal option"
  other :: "string object"

definition no_options :: fetch_options where
  "no_options =
     \<lparr>http_method = None, headers = None, body = None, credentials = None, signal = None,
      other = []\<rparr>"

definition or_else :: "'a option \<Rightarrow> 'a option \<Rightarrow> 'a option" where
  "or_else later earlier = (case later of Some v \<Rightarrow> Some v | None \<Rightarrow> earlier)"

text \<open>\<^verbatim>\<open>{ ...a, ...b }\<close> on option bags: a key of \<open>b\<close> overrides the same key of \<open>a\<close>.\<close>

definition spread_options :: "fetch_options \<Rightarrow> fetch_options \<Rightarrow> fetch_options" where
  "spread_options a b =
     \<lparr>http_method = or_else (http_method b) (http_method a),
      headers = or_else (headers b) (headers a),
      body = or_else (body b) (body a),
      credentials = or_else (credentials b) (credentials a),
      signal = or_else (signal b) (signal a),
      other = spread (other a) (other b)\<rparr>"

text \<open>How the promise returned by fetch settles.\<close>

datatype fetch_outcome = Resolved response | Rejected js_error

text \<open>The fetch capability: called with the URL and the options, it returns a promise. The
  third argument says whether the signal carried by the options is aborted before the promise
  settles; the result is how the promise settles then.\<close>

type_synonym fetcher = "string \<Rightarrow> fetch_options \<Rightarrow> bool \<Rightarrow> fetch_outcome"

text \<open>The environment the module runs in: the built-ins \<^verbatim>\<open>JSON.parse\<close> and
  \<^verbatim>\<open>JSON.stringify\<close> (either may throw), the imported query printer, the global
  \<^verbatim>\<open>fetch\<close> (\<open>None\<close> when \<^verbatim>\<open>typeof fetch === 'undefined'\<close>), and whether the globals
  \<^verbatim>\<open>window\<close> and \<^verbatim>\<open>AbortController\<close> are defined.\<close>

record env =
  JSON_parse :: "string \<Rightarrow> js_error + json"
  JSON_stringify :: "json \<Rightarrow> js_error + string"
  print :: "string \<Rightarrow> string"
  fetch :: "fetcher option"
  window :: bool
  AbortController :: bool

text \<open>The operation handed to a link and the context \<^verbatim>\<open>getContext()\<close> returns.\<close>

record operation =
  operationName :: "string option"
  variables :: "json object"
  query :: string
  extensions :: "json object option"

record http_options =
  includeQuery :: "bool option"
  includeExtensions :: "bool option"

record link_context =
  ctx_uri :: "string option"
  ctx_credentials :: "string option"
  ctx_headers :: "string object option"
  ctx_fetchOptions :: "fetch_options option"
  ctx_http :: "http_options option"

section \<open>The response classifier\<close>

text \<open>\<^verbatim>\<open>throwServerError\<close>: always throws.\<close>

definition throwServerError :: "response \<Rightarrow> json \<Rightarrow> string \<Rightarrow> js_error + json" where
  "throwServerError response result message =
     Inl ((new_Error message)
       \<lparr>err_response := Some response,
        err_statusCode := Some (status response),
        err_result := Some result\<rparr>)"

text \<open>\<^verbatim>\<open>result.hasOwnProperty(key)\<close> on a parsed body. Reading the function off \<^verbatim>\<open>null\<close> throws,
  and so does calling it when the body has a member of that name (parsed JSON holds no
  function). An array or a string owns its indices and \<^verbatim>\<open>length\<close>.\<close>

definition hasOwnProperty :: "json \<Rightarrow> string \<Rightarrow> js_error + bool" where
  "hasOwnProperty result key =
     (case result of
        JNull \<Rightarrow> Inl (host_error ''TypeError'' ''Cannot read property 'hasOwnProperty' of null'')
      | JObj kvs \<Rightarrow>
          (if ''hasOwnProperty'' \<in> set (map fst kvs)
           then Inl (host_error ''TypeError'' ''result.hasOwnProperty is not a function'')
           else Inr (key \<in> set (map fst kvs)))
      | JArr xs \<Rightarrow> Inr (key = ''length'' \<or> key \<in> set (map show_nat [0..<length xs]))
      | JStr s \<Rightarrow> Inr (key = ''length'' \<or> key \<in> set (map show_nat [0..<length s]))
      | _ \<Rightarrow> Inr False)"

text \<open>\<^verbatim>\<open>parseAndCheckResponse(request)(response)\<close>: the promise chain, \<open>Inl\<close> a rejection.
  The first \<^verbatim>\<open>then\<close> parses the text; a rejection there skips the second one.\<close>

definition parseAndCheckResponse :: "env \<Rightarrow> operation \<Rightarrow> response \<Rightarrow> js_error + json" where
  "parseAndCheckResponse env request response =
     (case JSON_parse env (bodyText response) of
        Inl err \<Rightarrow>
          Inl (err\<lparr>err_response := Some response,
                   err_statusCode := Some (status response),
                   err_bodyText := Some (bodyText response)\<rparr>)
      | Inr result \<Rightarrow>
          if status response \<ge> 300
          then throwServerError response result
                 (''Response not successful: Received status code '' @ show_nat (status response))
          else
            (case hasOwnProperty result ''data'' of
               Inl e \<Rightarrow> Inl e
             | Inr hasData \<Rightarrow>
                 if hasData then Inr result
                 else
                   (case hasOwnProperty result ''errors'' of
                      Inl e \<Rightarrow> Inl e
                    | Inr hasErrors \<Rightarrow>
                        if hasErrors then Inr result
                        else throwServerError response result
                               (''Server response was missing for query '' @ [CHR 0x27]
                                @ String (operationName request) @ [CHR 0x27] @ ''.''))))"

section \<open>The file extractor\<close>

text \<open>
  Modelled from the spec: the imported \<^verbatim>\<open>extractFiles\<close> of the external package
  \<^verbatim>\<open>extract-files\<close>, whose code is not part of this repository. Given a tree-shaped value it
  returns, in document order, one pair of path and file for every file-like leaf, the path
  being the sequence of object keys and array indices that leads from the root to the leaf;
  it returns the empty sequence when the tree holds no file, and it does not change the tree.
\<close>

datatype seg = Key string | Index nat

fun extractFiles :: "json \<Rightarrow> (seg list \<times> jsfile) list"
and extractFiles_items :: "nat \<Rightarrow> json list \<Rightarrow> (seg list \<times> jsfile) list"
and extractFiles_members :: "json object \<Rightarrow> (seg list \<times> jsfile) list" where
  "extractFiles (JFile f) = [([], f)]"
| "extractFiles (JArr xs) = extractFiles_items 0 xs"
| "extractFiles (JObj kvs) = extractFiles_members kvs"
| "extractFiles _ = []"
| "extractFiles_items i [] = []"
| "extractFiles_items i (x # xs) =
     map (\<lambda>(p, f). (Index i # p, f)) (extractFiles x) @ extractFiles_items (Suc i) xs"
| "extractFiles_members [] = []"
| "extractFiles_members ((k, x) # kvs) =
     map (\<lambda>(p, f). (Key k # p, f)) (extractFiles x) @ extractFiles_members kvs"

text \<open>The true location of a file: \<open>file_at t p f\<close> holds when following the path \<open>p\<close> from the
  root of \<open>t\<close> arrives at the file \<open>f\<close>.\<close>

fun file_at :: "json \<Rightarrow> seg list \<Rightarrow> jsfile \<Rightarrow> bool" where
  "file_at (JFile g) [] f = (g = f)"
| "file_at (JObj kvs) (Key k # p) f = list_ex (\<lambda>(k', c). k' = k \<and> file_at c p f) kvs"
| "file_at (JArr xs) (Index i # p) f = (i < length xs \<and> file_at (xs ! i) p f)"
| "file_at _ _ _ = False"

text \<open>A path seen from one level up: the path of a file of \<^verbatim>\<open>variables\<close> within the record
  that holds the variables under the key \<open>k\<close>.\<close>

definition under :: "string \<Rightarrow> seg list \<times> jsfile \<Rightarrow> seg list \<times> jsfile" where
  "under k pf = (Key k # fst pf, snd pf)"

text \<open>A path as a JSON value, and the object both links build with
  \<^verbatim>\<open>files.reduce((map, { path }, index) => { map[`${index}`] = [path]; return map }, {})\<close>.\<close>

fun seg_json :: "seg \<Rightarrow> json" where
  "seg_json (Key k) = JStr k"
| "seg_json (Index i) = JNum (int i)"

definition path_json :: "seg list \<Rightarrow> json" where
  "path_json p = JArr (map seg_json p)"

definition files_map :: "(seg list \<times> jsfile) list \<Rightarrow> json object" where
  "files_map files =
     fold (\<lambda>(index, (path, file)) m. AList.update (show_nat index) (JArr [path_json path]) m)
       (enumerate 0 files) []"

text \<open>\<^verbatim>\<open>files.forEach(({ file }, index) => body.append(index, file, file.name))\<close>.\<close>

definition file_parts :: "(seg list \<times> jsfile) list \<Rightarrow> part list" where
  "file_parts files =
     map (\<lambda>(index, (path, file)). FileField (show_nat index) file (file_name file))
       (enumerate 0 files)"

section \<open>Construction\<close>

text \<open>The options object a link is constructed with (\<open>None\<close>: the key is absent).\<close>

record link_options =
  opt_multipart :: "bool option"
  opt_uri :: "string option"
  opt_fetch :: "fetcher option"
  opt_includeExtensions :: "bool option"
  opt_credentials :: "string option"
  opt_headers :: "string object option"
  opt_fetchOptions :: "fetch_options option"

definition guidance :: "string \<Rightarrow> string" where
  "guidance library =
     ''fetch is not found globally and no fetcher passed, to fix pass a fetch for'' @ [CHR 0x0A]
     @ ''      your environment like https://www.npmjs.com/package/'' @ library @ ''.'' @ [CHR 0x0A]
     @ ''      For example:'' @ [CHR 0x0A]
     @ ''        import fetch from '' @ [CHR 0x27] @ library @ [CHR 0x27] @ '';'' @ [CHR 0x0A]
     @ ''        import { createUploadLink } from '' @ [CHR 0x27] @ ''apollo-link-http''
     @ [CHR 0x27] @ '';'' @ [CHR 0x0A]
     @ ''        const link = createUploadLink({ uri: '' @ [CHR 0x27] @ ''/graphql'' @ [CHR 0x27]
     @ '', fetch: fetch });'' @ [CHR 0x0A] @ ''      ''"

text \<open>\<^verbatim>\<open>warnIfNoFetch(fetcher)\<close>: throws, or returns nothing.\<close>

definition warnIfNoFetch :: "env \<Rightarrow> fetcher option \<Rightarrow> js_error + unit" where
  "warnIfNoFetch env fetcher =
     (case (fetcher, fetch env) of
        (None, None) \<Rightarrow>
          (let library = (if \<not> window env then ''node-fetch'' else ''unfetch'')
           in Inl (new_Error (guidance library)))
      | _ \<Rightarrow> Inr ())"

text \<open>Reading the identifier \<^verbatim>\<open>fetch\<close> where no such global exists throws.\<close>

definition global_fetch :: "env \<Rightarrow> js_error + fetcher" where
  "global_fetch env =
     (case fetch env of
        None \<Rightarrow> Inl (host_error ''ReferenceError'' ''fetch is not defined'')
      | Some f \<Rightarrow> Inr f)"

text \<open>\<^verbatim>\<open>createSignalIfSupported()\<close>; \<open>None\<close> is the value \<^verbatim>\<open>false\<close>.\<close>

definition createSignalIfSupported :: "env \<Rightarrow> abort_controller option \<times> abort_signal option" where
  "createSignalIfSupported env =
     (if \<not> AbortController env then (None, None)
      else (Some NewAbortController, Some AbortSignal))"

definition defaultHttpOptions :: http_options where
  "defaultHttpOptions = \<lparr>includeQuery = Some True, includeExtensions = Some False\<rparr>"

definition spread_http :: "http_options \<Rightarrow> http_options \<Rightarrow> http_options" where
  "spread_http a b =
     \<lparr>includeQuery = or_else (includeQuery b) (includeQuery a),
      includeExtensions = or_else (includeExtensions b) (includeExtensions a)\<rparr>"

text \<open>What \<^verbatim>\<open>jsonUploadLink(options)\<close> binds: its parameters after the defaults are applied.
  The default of \<^verbatim>\<open>fetch\<close> is the global, read only when no fetch is passed.\<close>

record json_link =
  jl_includeExtensions :: "bool option"
  linkUri :: string
  linkCredentials :: "string option"
  linkHeaders :: "string object option"
  linkFetchOptions :: fetch_options
  linkFetch :: fetcher

definition jsonUploadLink :: "env \<Rightarrow> link_options \<Rightarrow> js_error + json_link" where
  "jsonUploadLink env opts =
     (case (case opt_fetch opts of Some f \<Rightarrow> Inr f | None \<Rightarrow> global_fetch env) of
        Inl e \<Rightarrow> Inl e
      | Inr f \<Rightarrow>
          Inr \<lparr>jl_includeExtensions = opt_includeExtensions opts,
               linkUri = (case opt_uri opts of Some u \<Rightarrow> u | None \<Rightarrow> ''/graphql''),
               linkCredentials = opt_credentials opts,
               linkHeaders = opt_headers opts,
               linkFetchOptions =
                 (case opt_fetchOptions opts of Some fo \<Rightarrow> fo | None \<Rightarrow> no_options),
               linkFetch = f\<rparr>)"

text \<open>What \<^verbatim>\<open>multipartUploadLink(linkOptions)\<close> binds before it returns the link;
  \<open>requestOptions\<close> is the rest of the options object.\<close>

record request_options =
  ro_credentials :: "string option"
  ro_headers :: "string object option"
  ro_fetchOptions :: "fetch_options option"

record multipart_link =
  ml_uri :: string
  ml_fetcher :: fetcher
  ml_includeExtensions :: "bool option"
  requestOptions :: request_options

definition multipartUploadLink :: "env \<Rightarrow> link_options \<Rightarrow> js_error + multipart_link" where
  "multipartUploadLink env linkOptions =
     (case warnIfNoFetch env (opt_fetch linkOptions) of
        Inl e \<Rightarrow> Inl e
      | Inr _ \<Rightarrow>
          (case (case opt_fetch linkOptions of Some f \<Rightarrow> Inr f | None \<Rightarrow> global_fetch env) of
             Inl e \<Rightarrow> Inl e
           | Inr f \<Rightarrow>
               Inr \<lparr>ml_uri = (if \<not> truthy (opt_uri linkOptions) then ''/graphql''
                              else String (opt_uri linkOptions)),
                    ml_fetcher = f,
                    ml_includeExtensions = opt_includeExtensions linkOptions,
                    requestOptions =
                      \<lparr>ro_credentials = opt_credentials linkOptions,
                       ro_headers = opt_headers linkOptions,
                       ro_fetchOptions = opt_fetchOptions linkOptions\<rparr>\<rparr>))"

text \<open>\<^verbatim>\<open>createUploadLink\<close> of \<^verbatim>\<open>src/unnamed/part_000\<close>: the same construction.\<close>

definition createUploadLink_part_000 :: "env \<Rightarrow> link_options \<Rightarrow> js_error + multipart_link" where
  "createUploadLink_part_000 env linkOptions =
     (case warnIfNoFetch env (opt_fetch linkOptions) of
        Inl e \<Rightarrow> Inl e
      | Inr _ \<Rightarrow>
          (case (case opt_fetch linkOptions of Some f \<Rightarrow> Inr f | None \<Rightarrow> global_fetch env) of
             Inl e \<Rightarrow> Inl e
           | Inr f \<Rightarrow>
               Inr \<lparr>ml_uri = (if \<not> truthy (opt_uri linkOptions) then ''/graphql''
                              else String (opt_uri linkOptions)),
                    ml_fetcher = f,
                    ml_includeExtensions = opt_includeExtensions linkOptions,
                    requestOptions =
                      \<lparr>ro_credentials = opt_credentials linkOptions,
                       ro_headers = opt_headers linkOptions,
                       ro_fetchOptions = opt_fetchOptions linkOptions\<rparr>\<rparr>))"

text \<open>\<^verbatim>\<open>createUploadLink\<close> of \<^verbatim>\<open>src/index.mjs\<close> chooses between the two links.\<close>

datatype upload_link = JsonLink json_link | MultipartLink multipart_link

definition createUploadLink :: "env \<Rightarrow> link_options \<Rightarrow> js_error + upload_link" where
  "createUploadLink env opts =
     (if opt_multipart opts = Some True
      then map_sum id MultipartLink (multipartUploadLink env opts)
      else map_sum id JsonLink (jsonUploadLink env opts))"

section \<open>Building the request\<close>

text \<open>The record \<^verbatim>\<open>requestOperation\<close> of \<^verbatim>\<open>jsonUploadLink\<close>.\<close>

definition requestOperation :: "env \<Rightarrow> json_link \<Rightarrow> operation \<Rightarrow> json object" where
  "requestOperation env link op =
     [(''query'', JStr (print env (query op)))]
     @ (if truthy (operationName op)
        then [(''operationName'', JStr (String (operationName op)))] else [])
     @ (if length (variables op) \<noteq> 0 then [(''variables'', JObj (variables op))] else [])
     @ (case extensions op of
          None \<Rightarrow> []
        | Some ext \<Rightarrow>
            if jl_includeExtensions link = Some True then [(''extensions'', JObj ext)] else [])"

text \<open>The headers \<^verbatim>\<open>jsonUploadLink\<close> merges:
  \<^verbatim>\<open>{ ...linkFetchOptions.headers, ...contextFetchOptions.headers, ...linkHeaders, ...contextHeaders }\<close>.\<close>

definition merged_headers :: "json_link \<Rightarrow> link_context \<Rightarrow> string object" where
  "merged_headers link ctx =
     spread (spread (spread (members (headers (linkFetchOptions link)))
                       (members (headers (case ctx_fetchOptions ctx of
                                            Some fo \<Rightarrow> fo | None \<Rightarrow> no_options))))
               (members (linkHeaders link)))
       (members (ctx_headers ctx))"

text \<open>The subscriber of \<^verbatim>\<open>jsonUploadLink\<close> up to the call of \<^verbatim>\<open>linkFetch\<close>: \<open>Inl\<close> when it
  throws, else the URL and the options of the call.\<close>

definition jsonUploadLink_request ::
    "env \<Rightarrow> json_link \<Rightarrow> operation \<Rightarrow> link_context \<Rightarrow> js_error + string \<times> fetch_options" where
  "jsonUploadLink_request env link op ctx =
     (let files = extractFiles (JObj (requestOperation env link op));
          uri = (case ctx_uri ctx of Some u \<Rightarrow> u | None \<Rightarrow> linkUri link);
          creds = or_else (ctx_credentials ctx) (linkCredentials link);
          contextFetchOptions =
            (case ctx_fetchOptions ctx of Some fo \<Rightarrow> fo | None \<Rightarrow> no_options);
          fetchOptions0 =
            (spread_options (linkFetchOptions link) contextFetchOptions)
              \<lparr>headers := Some (merged_headers link ctx), http_method := Some ''POST''\<rparr>;
          fetchOptions =
            (if truthy creds then fetchOptions0\<lparr>credentials := creds\<rparr> else fetchOptions0)
      in if length files \<noteq> 0
         then
           (case JSON_stringify env (JObj (requestOperation env link op)) of
              Inl e \<Rightarrow> Inl e
            | Inr operations \<Rightarrow>
                (case JSON_stringify env (JObj (files_map files)) of
                   Inl e \<Rightarrow> Inl e
                 | Inr mapText \<Rightarrow>
                     Inr (uri,
                          fetchOptions
                            \<lparr>body :=
                               Some (FormData ([Field ''operations'' operations,
                                                Field ''map'' mapText]
                                               @ file_parts files))\<rparr>)))
         else
           (case JSON_stringify env (JObj (requestOperation env link op)) of
              Inl e \<Rightarrow> Inl e
            | Inr bodyJson \<Rightarrow>
                Inr (uri,
                     fetchOptions
                       \<lparr>headers :=
                          Some (AList.update ''content-type'' ''application/json''
                                  (members (headers fetchOptions))),
                        body := Some (Text bodyJson)\<rparr>)))"

text \<open>The call a subscriber of \<^verbatim>\<open>multipartUploadLink\<close> makes, with the controller its
  teardown closes over.\<close>

record fetch_call =
  call_uri :: string
  call_options :: fetch_options
  call_controller :: "abort_controller option"

text \<open>\<^verbatim>\<open>FormData.append\<close> turns an object into the text \<^verbatim>\<open>[object Object]\<close>.\<close>

definition extensions_text :: "json object option \<Rightarrow> string" where
  "extensions_text ext = (case ext of None \<Rightarrow> ''undefined'' | Some _ \<Rightarrow> ''[object Object]'')"

text \<open>The \<^verbatim>\<open>catch\<close> block around \<^verbatim>\<open>JSON.stringify(variables)\<close>.\<close>

definition not_serializable :: "js_error \<Rightarrow> js_error" where
  "not_serializable e =
     (new_Error (''Network request failed. Payload is not serializable: '' @ err_message e))
       \<lparr>err_parseError := Some (err_name e, err_message e)\<rparr>"

text \<open>\<^verbatim>\<open>options\<close>: the context's \<^verbatim>\<open>fetchOptions\<close> over the link's.\<close>

definition caller_options :: "multipart_link \<Rightarrow> link_context \<Rightarrow> fetch_options" where
  "caller_options link ctx =
     (let fetchOptions = (case ctx_fetchOptions ctx of Some fo \<Rightarrow> fo | None \<Rightarrow> no_options)
      in case ro_fetchOptions (requestOptions link) of
           Some fo \<Rightarrow> spread_options fo fetchOptions
         | None \<Rightarrow> fetchOptions)"

text \<open>\<^verbatim>\<open>fetcherOptions\<close> as it stands when \<^verbatim>\<open>fetcher\<close> is called; shared by the two
  always-multipart links, which differ in the headers they start from.\<close>

definition fetcherOptions ::
    "env \<Rightarrow> multipart_link \<Rightarrow> link_context \<Rightarrow> string object \<Rightarrow> part list \<Rightarrow> fetch_options" where
  "fetcherOptions env link ctx baseHeaders parts =
     (let o1 = (spread_options (no_options\<lparr>http_method := Some ''POST''\<rparr>)
                  (caller_options link ctx))
                 \<lparr>headers := Some baseHeaders, body := Some (FormData parts)\<rparr>;
          o2 = (if truthy (ro_credentials (requestOptions link))
                then o1\<lparr>credentials := ro_credentials (requestOptions link)\<rparr> else o1);
          o3 = (if truthy (ctx_credentials ctx)
                then o2\<lparr>credentials := ctx_credentials ctx\<rparr> else o2);
          o4 = (case ro_headers (requestOptions link) of
                  Some h \<Rightarrow> o3\<lparr>headers := Some (spread (members (headers o3)) h)\<rparr>
                | None \<Rightarrow> o3);
          o5 = (case ctx_headers ctx of
                  Some h \<Rightarrow> o4\<lparr>headers := Some (spread (members (headers o4)) h)\<rparr>
                | None \<Rightarrow> o4)
      in case fst (createSignalIfSupported env) of
           Some controller \<Rightarrow> o5\<lparr>signal := snd (createSignalIfSupported env)\<rparr>
         | None \<Rightarrow> o5)"

text \<open>The text fields appended after the files, from \<^verbatim>\<open>operationName\<close> on.\<close>

definition operation_fields ::
    "env \<Rightarrow> multipart_link \<Rightarrow> operation \<Rightarrow> link_context \<Rightarrow> string \<Rightarrow> part list" where
  "operation_fields env link op ctx variablesText =
     (let http = spread_http defaultHttpOptions
                   (case ctx_http ctx of
                      Some h \<Rightarrow> h
                    | None \<Rightarrow> \<lparr>includeQuery = None, includeExtensions = None\<rparr>)
      in [Field ''operationName'' (String (operationName op)),
          Field ''variables'' variablesText]
         @ (if ml_includeExtensions link = Some True \<or> includeExtensions http = Some True
            then [Field ''extensions'' (extensions_text (extensions op))] else [])
         @ (if includeQuery http = Some True
            then [Field ''query'' (print env (query op))] else []))"

text \<open>The subscriber of \<^verbatim>\<open>multipartUploadLink\<close> up to the call of \<^verbatim>\<open>fetcher\<close>.\<close>

definition multipartUploadLink_request ::
    "env \<Rightarrow> multipart_link \<Rightarrow> operation \<Rightarrow> link_context \<Rightarrow> js_error + fetch_call" where
  "multipartUploadLink_request env link op ctx =
     (let files = extractFiles (JObj (variables op))
      in case JSON_stringify env (JObj (files_map files)) of
           Inl e \<Rightarrow> Inl e
         | Inr filesText \<Rightarrow>
             (case JSON_stringify env (JObj (variables op)) of
                Inl e \<Rightarrow> Inl (not_serializable e)
              | Inr variablesText \<Rightarrow>
                  Inr \<lparr>call_uri = (if truthy (ctx_uri ctx) then String (ctx_uri ctx)
                                    else ml_uri link),
                       call_options =
                         fetcherOptions env link ctx
                           [(''accept'', ''*/*''), (''content-type'', ''multipart/form-data'')]
                           ([Field ''files'' filesText] @ file_parts files
                            @ operation_fields env link op ctx variablesText),
                       call_controller = fst (createSignalIfSupported env)\<rparr>))"

text \<open>The subscriber of \<^verbatim>\<open>createUploadLink\<close> of \<^verbatim>\<open>src/unnamed/part_000\<close>.\<close>

definition createUploadLink_part_000_request ::
    "env \<Rightarrow> multipart_link \<Rightarrow> operation \<Rightarrow> link_context \<Rightarrow> js_error + fetch_call" where
  "createUploadLink_part_000_request env link op ctx =
     (let files = extractFiles (JObj (variables op))
      in case JSON_stringify env (JObj (variables op)) of
           Inl e \<Rightarrow> Inl (not_serializable e)
         | Inr variablesText \<Rightarrow>
             Inr \<lparr>call_uri = (if truthy (ctx_uri ctx) then String (ctx_uri ctx)
                               else ml_uri link),
                  call_options =
                    fetcherOptions env link ctx [(''accept'', ''*/*'')]
                      ((if length files \<noteq> 0
                        then map (\<lambda>(path, file). FileField ''file'' file (file_name file)) files
                        else [])
                       @ operation_fields env link op ctx variablesText),
                  call_controller = fst (createSignalIfSupported env)\<rparr>)"

section \<open>Dispatch, settlement and cancellation\<close>

text \<open>What a link does with the observer it is given.\<close>

datatype observer_call = ObserverNext json | ObserverComplete | ObserverError js_error

text \<open>The promise chain of \<^verbatim>\<open>jsonUploadLink\<close> once the fetch promise has settled: the response
  written with \<^verbatim>\<open>setContext\<close>, and the calls on the observer. \<^verbatim>\<open>response.json()\<close> parses
  the body text and rejects where \<^verbatim>\<open>JSON.parse\<close> throws.\<close>

definition jsonUploadLink_settle ::
    "env \<Rightarrow> fetch_outcome \<Rightarrow> response option \<times> observer_call list" where
  "jsonUploadLink_settle env outcome =
     (case outcome of
        Rejected error \<Rightarrow> (None, [ObserverError error])
      | Resolved response \<Rightarrow>
          (Some response,
           if \<not> ok response
           then [ObserverError
                   (new_Error (show_nat (status response) @ '' ('' @ statusText response @ '')''))]
           else
             (case JSON_parse env (bodyText response) of
                Inl error \<Rightarrow> [ObserverError error]
              | Inr result \<Rightarrow> [ObserverNext result, ObserverComplete])))"

text \<open>The final \<^verbatim>\<open>catch\<close> of the two always-multipart links.\<close>

definition catch_handler :: "js_error \<Rightarrow> observer_call list" where
  "catch_handler err = (if err_name err = ''AbortError'' then [] else [ObserverError err])"

definition multipartUploadLink_settle ::
    "env \<Rightarrow> operation \<Rightarrow> fetch_outcome \<Rightarrow> response option \<times> observer_call list" where
  "multipartUploadLink_settle env op outcome =
     (case outcome of
        Rejected err \<Rightarrow> (None, catch_handler err)
      | Resolved response \<Rightarrow>
          (Some response,
           case parseAndCheckResponse env op response of
             Inl err \<Rightarrow> catch_handler err
           | Inr result \<Rightarrow> [ObserverNext result, ObserverComplete]))"

text \<open>The teardown the subscriber returns: whether it calls \<^verbatim>\<open>controller.abort()\<close>.\<close>

definition teardown :: "abort_controller option \<Rightarrow> bool" where
  "teardown controller = (case controller of Some c \<Rightarrow> True | None \<Rightarrow> False)"

text \<open>
  One subscription from start to end. \<open>cancel\<close> says whether the pipeline unsubscribes
  before the fetch promise settles. A subscriber that throws makes no fetch call and the
  \<^verbatim>\<open>Observable\<close> it runs in reports the error to the observer. \<open>observer\<close> lists the calls the
  link makes on its observer; \<open>aborted\<close> says whether \<^verbatim>\<open>controller.abort()\<close> was called.
\<close>

record run =
  fetch_calls :: "(string \<times> fetch_options) list"
  aborted :: bool
  context_response :: "response option"
  observer :: "observer_call list"

definition thrown :: "js_error \<Rightarrow> run" where
  "thrown e =
     \<lparr>fetch_calls = [], aborted = False, context_response = None,
      observer = [ObserverError e]\<rparr>"

definition multipart_run ::
    "env \<Rightarrow> multipart_link \<Rightarrow> operation \<Rightarrow> js_error + fetch_call \<Rightarrow> bool \<Rightarrow> run" where
  "multipart_run env link op request cancel =
     (case request of
        Inl e \<Rightarrow> thrown e
      | Inr call \<Rightarrow>
          (let abort = (cancel \<and> teardown (call_controller call));
               outcome = ml_fetcher link (call_uri call) (call_options call) abort;
               settled = multipartUploadLink_settle env op outcome
           in \<lparr>fetch_calls = [(call_uri call, call_options call)], aborted = abort,
                context_response = fst settled, observer = snd settled\<rparr>))"

definition multipartUploadLink_run ::
    "env \<Rightarrow> multipart_link \<Rightarrow> operation \<Rightarrow> link_context \<Rightarrow> bool \<Rightarrow> run" where
  "multipartUploadLink_run env link op ctx cancel =
     multipart_run env link op (multipartUploadLink_request env link op ctx) cancel"

definition createUploadLink_part_000_run ::
    "env \<Rightarrow> multipart_link \<Rightarrow> operation \<Rightarrow> link_context \<Rightarrow> bool \<Rightarrow> run" where
  "createUploadLink_part_000_run env link op ctx cancel =
     multipart_run env link op (createUploadLink_part_000_request env link op ctx) cancel"

text \<open>The subscriber of \<^verbatim>\<open>jsonUploadLink\<close> returns no teardown and passes no signal of its
  own, so unsubscribing reaches neither the controller nor the fetch call.\<close>

definition jsonUploadLink_run ::
    "env \<Rightarrow> json_link \<Rightarrow> operation \<Rightarrow> link_context \<Rightarrow> bool \<Rightarrow> run" where
  "jsonUploadLink_run env link op ctx cancel =
     (case jsonUploadLink_request env link op ctx of
        Inl e \<Rightarrow> thrown e
      | Inr (uri, fetchOptions) \<Rightarrow>
          (let outcome = linkFetch link uri fetchOptions False;
               settled = jsonUploadLink_settle env outcome
           in \<lparr>fetch_calls = [(uri, fetchOptions)], aborted = False,
                context_response = fst settled, observer = snd settled\<rparr>))"


section \<open>Reading a request off the wire\<close>

definition sent :: "run \<Rightarrow> fetch_options list" where
  "sent r = map snd (fetch_calls r)"

definition header :: "string \<Rightarrow> fetch_options \<Rightarrow> string option" where
  "header name opts = map_of (members (headers opts)) name"

definition multipart_parts :: "fetch_options \<Rightarrow> part list option" where
  "multipart_parts opts =
     (case body opts of Some (FormData parts) \<Rightarrow> Some parts | _ \<Rightarrow> None)"

fun part_name :: "part \<Rightarrow> string" where
  "part_name (Field n v) = n"
| "part_name (FileField n f filename) = n"

definition field_names :: "fetch_options \<Rightarrow> string list" where
  "field_names opts = map part_name (case multipart_parts opts of Some ps \<Rightarrow> ps | None \<Rightarrow> [])"

section \<open>Example hosts and requests\<close>

text \<open>A serialiser in the manner of \<^verbatim>\<open>JSON.stringify\<close>: it refuses a BigInt, and prints a
  file handle, which has no enumerable property of its own, as \<^verbatim>\<open>{}\<close>.\<close>

definition show_int :: "int \<Rightarrow> string" where
  "show_int i = (if i < 0 then ''-'' @ show_nat (nat (- i)) else show_nat (nat i))"

definition quote :: "string \<Rightarrow> string" where
  "quote s =
     [CHR 0x22]
     @ concat (map (\<lambda>c. if c = CHR 0x22 \<or> c = CHR 0x5C then [CHR 0x5C, c] else [c]) s)
     @ [CHR 0x22]"

fun commas :: "string list \<Rightarrow> string" where
  "commas [] = []"
| "commas [t] = t"
| "commas (t # ts) = t @ '','' @ commas ts"

fun json_text :: "json \<Rightarrow> js_error + string"
and json_text_items :: "json list \<Rightarrow> js_error + string list"
and json_text_members :: "json object \<Rightarrow> js_error + string list" where
  "json_text JNull = Inr ''null''"
| "json_text (JBool b) = Inr (if b then ''true'' else ''false'')"
| "json_text (JNum i) = Inr (show_int i)"
| "json_text (JStr s) = Inr (quote s)"
| "json_text (JBigInt i) =
     Inl (host_error ''TypeError'' ''Do not know how to serialize a BigInt'')"
| "json_text (JFile f) = Inr ''{}''"
| "json_text (JArr xs) =
     (case json_text_items xs of
        Inl e \<Rightarrow> Inl e
      | Inr ts \<Rightarrow> Inr (''['' @ commas ts @ '']''))"
| "json_text (JObj kvs) =
     (case json_text_members kvs of
        Inl e \<Rightarrow> Inl e
      | Inr ts \<Rightarrow> Inr (''{'' @ commas ts @ ''}''))"
| "json_text_items [] = Inr []"
| "json_text_items (x # xs) =
     (case json_text x of
        Inl e \<Rightarrow> Inl e
      | Inr t \<Rightarrow> (case json_text_items xs of Inl e \<Rightarrow> Inl e | Inr ts \<Rightarrow> Inr (t # ts)))"
| "json_text_members [] = Inr []"
| "json_text_members ((k, x) # kvs) =
     (case json_text x of
        Inl e \<Rightarrow> Inl e
      | Inr t \<Rightarrow>
          (case json_text_members kvs of
             Inl e \<Rightarrow> Inl e
           | Inr ts \<Rightarrow> Inr ((quote k @ '':'' @ t) # ts)))"

text \<open>A parser that knows the bodies of the examples and rejects every other text the way
  \<^verbatim>\<open>JSON.parse\<close> rejects what is not JSON.\<close>

definition parse_table :: "(string \<times> json) list" where
  \<open>parse_table =
     [(''{"data":{}}'', JObj [(''data'', JObj [])]),
      (''{"errors":[]}'', JObj [(''errors'', JArr [])]),
      (''{"foo":1}'', JObj [(''foo'', JNum 1)])]\<close>

definition syntax_error :: js_error where
  "syntax_error = host_error ''SyntaxError'' ''Unexpected token in JSON''"

definition table_parse :: "string \<Rightarrow> js_error + json" where
  "table_parse s =
     (case map_of parse_table s of
        Some v \<Rightarrow> Inr v
      | None \<Rightarrow> Inl syntax_error)"

text \<open>A fetch that answers with a given response, and rejects with an \<^verbatim>\<open>AbortError\<close> when
  the signal it was given is aborted first.\<close>

definition abortable_fetch :: "response \<Rightarrow> fetcher" where
  "abortable_fetch r uri opts abort =
     (if abort \<and> signal opts \<noteq> None
      then Rejected (host_error ''AbortError'' ''The user aborted a request.'')
      else Resolved r)"

definition data_response :: response where
  \<open>data_response = \<lparr>status = 200, ok = True, statusText = ''OK'', bodyText = ''{"data":{}}''\<rparr>\<close>

definition browser :: env where
  "browser =
     \<lparr>JSON_parse = table_parse, JSON_stringify = json_text, print = (\<lambda>q. q),
      fetch = Some (abortable_fetch data_response), window = True, AbortController = True\<rparr>"

text \<open>The same host without \<^verbatim>\<open>AbortController\<close>, and a host without \<^verbatim>\<open>fetch\<close> and
  \<^verbatim>\<open>window\<close>.\<close>

definition old_browser :: env where
  "old_browser = browser\<lparr>AbortController := False\<rparr>"

definition bare_node :: env where
  "bare_node = browser\<lparr>fetch := None, window := False\<rparr>"

definition no_link_options :: link_options where
  "no_link_options =
     \<lparr>opt_multipart = None, opt_uri = None, opt_fetch = None, opt_includeExtensions = None,
      opt_credentials = None, opt_headers = None, opt_fetchOptions = None\<rparr>"

definition no_context :: link_context where
  "no_context =
     \<lparr>ctx_uri = None, ctx_credentials = None, ctx_headers = None, ctx_fetchOptions = None,
      ctx_http = None\<rparr>"

text \<open>The links the two constructors return in the browser for an empty options object.\<close>

definition json_link0 :: json_link where
  "json_link0 =
     \<lparr>jl_includeExtensions = None, linkUri = ''/graphql'', linkCredentials = None,
      linkHeaders = None, linkFetchOptions = no_options,
      linkFetch = abortable_fetch data_response\<rparr>"

definition multipart_link0 :: multipart_link where
  "multipart_link0 =
     \<lparr>ml_uri = ''/graphql'', ml_fetcher = abortable_fetch data_response,
      ml_includeExtensions = None,
      requestOptions = \<lparr>ro_credentials = None, ro_headers = None, ro_fetchOptions = None\<rparr>\<rparr>"

text \<open>An upload of two files, a query without files, and variables that do not serialise.\<close>

definition upload_operation :: operation where
  "upload_operation =
     \<lparr>operationName = Some ''up'',
      variables =
        [(''id'', JNum 7),
         (''docs'', JArr [JFile (File ''a.txt'' ''A''), JFile (File ''b.txt'' ''B'')])],
      query = ''mutation { up }'',
      extensions = None\<rparr>"

definition plain_operation :: operation where
  "plain_operation =
     \<lparr>operationName = Some ''me'', variables = [(''id'', JNum 7)], query = ''{ me }'',
      extensions = None\<rparr>"

definition bigint_operation :: operation where
  "bigint_operation =
     \<lparr>operationName = Some ''me'', variables = [(''n'', JBigInt 1)], query = ''{ me }'',
      extensions = None\<rparr>"

text \<open>Responses: an envelope without \<^verbatim>\<open>data\<close> and \<^verbatim>\<open>errors\<close>, error pages that are not
  JSON, and a well-formed envelope under an error status.\<close>

definition foo_response :: response where
  \<open>foo_response = \<lparr>status = 200, ok = True, statusText = ''OK'', bodyText = ''{"foo":1}''\<rparr>\<close>

definition text_500 :: response where
  "text_500 =
     \<lparr>status = 500, ok = False, statusText = ''Internal Server Error'',
      bodyText = ''Internal Server Error''\<rparr>"

definition html_404 :: response where
  "html_404 =
     \<lparr>status = 404, ok = False, statusText = ''Not Found'',
      bodyText = ''<html>Not Found</html>''\<rparr>"

definition data_500 :: response where
  \<open>data_500 =
     \<lparr>status = 500, ok = False, statusText = ''Internal Server Error'',
      bodyText = ''{"data":{}}''\<rparr>\<close>

definition data_503 :: response where
  \<open>data_503 =
     \<lparr>status = 503, ok = False, statusText = ''Service Unavailable'',
      bodyText = ''{"data":{}}''\<rparr>\<close>

text \<open>Links and a context that carry headers.\<close>

definition json_link_a1 :: json_link where
  "json_link_a1 = json_link0\<lparr>linkHeaders := Some [(''a'', ''1'')]\<rparr>"

definition json_link_A1 :: json_link where
  "json_link_A1 = json_link0\<lparr>linkHeaders := Some [(''A'', ''1'')]\<rparr>"

definition multipart_link_a1 :: multipart_link where
  "multipart_link_a1 =
     multipart_link0
       \<lparr>requestOptions :=
          \<lparr>ro_credentials = None, ro_headers = Some [(''a'', ''1'')], ro_fetchOptions = None\<rparr>\<rparr>"

definition context_a2b3 :: link_context where
  "context_a2b3 = no_context\<lparr>ctx_headers := Some [(''a'', ''2''), (''b'', ''3'')]\<rparr>"

text \<open>A context whose own \<^verbatim>\<open>fetchOptions\<close> hold a signal.\<close>

definition signal_context :: link_context where
  "signal_context =
     no_context\<lparr>ctx_fetchOptions := Some (no_options\<lparr>signal := Some AbortSignal\<rparr>)\<rparr>"

text \<open>The calls \<^verbatim>\<open>jsonUploadLink\<close> makes for the upload and for the query without files.\<close>

definition upload_call :: "string \<times> fetch_options" where
  \<open>upload_call =
     (''/graphql'',
      \<lparr>http_method = Some ''POST'', headers = Some [],
       body = Some (FormData
         [Field ''operations''
            ''{"query":"mutation { up }","operationName":"up","variables":{"id":7,"docs":[{},{}]}}'',
          Field ''map'' ''{"0":[["variables","docs",0]],"1":[["variables","docs",1]]}'',
          FileField ''0'' (File ''a.txt'' ''A'') ''a.txt'',
          FileField ''1'' (File ''b.txt'' ''B'') ''b.txt'']),
       credentials = None, signal = None, other = []\<rparr>)\<close>

definition plain_call :: "string \<times> fetch_options" where
  \<open>plain_call =
     (''/graphql'',
      \<lparr>http_method = Some ''POST'',
       headers = Some [(''content-type'', ''application/json'')],
       body = Some (Text ''{"query":"{ me }","operationName":"me","variables":{"id":7}}''),
       credentials = None, signal = None, other = []\<rparr>)\<close>

section \<open>Facts about the host values\<close>

lemma digit_code: "d < 10 \<Longrightarrow> (of_char (digit d) :: nat) = 48 + d"
proof -
  assume "d < 10"
  then have "d \<in> {0, 1, 2, 3, 4, 5, 6, 7, 8, 9}" by auto
  then show ?thesis by (auto simp: digit_def)
qed

lemma digit_inj:
  assumes "d < 10" "e < 10" "digit d = digit e"
  shows "d = e"
proof -
  have "(48::nat) + d = of_char (digit d)" using assms(1) by (simp add: digit_code)
  also have "\<dots> = of_char (digit e)" using assms(3) by simp
  also have "\<dots> = 48 + e" using assms(2) by (simp add: digit_code)
  finally show ?thesis by simp
qed

lemma show_nat_small: "n < 10 \<Longrightarrow> show_nat n = [digit n]"
  by (subst show_nat.simps) simp

lemma show_nat_large:
  "\<not> n < 10 \<Longrightarrow> show_nat n = show_nat (n div 10) @ [digit (n mod 10)]"
  by (subst show_nat.simps) simp

lemma show_nat_nonempty: "show_nat n \<noteq> []" "[] \<noteq> show_nat n"
  by (cases "n < 10"; simp add: show_nat_small show_nat_large)+

text \<open>Two indices never print alike, so the keys \<^verbatim>\<open>`${index}`\<close> never collide.\<close>

lemma show_nat_inj: "show_nat m = show_nat n \<Longrightarrow> m = n"
proof (induction m arbitrary: n rule: show_nat.induct)
  case (1 m)
  show ?case
  proof (cases "m < 10")
    case True
    have n: "n < 10"
    proof (rule ccontr)
      assume "\<not> n < 10"
      with "1.prems" True show False
        by (simp add: show_nat_small show_nat_large show_nat_nonempty)
    qed
    from True n "1.prems" have "digit m = digit n" by (simp add: show_nat_small)
    with True n show ?thesis by (rule digit_inj)
  next
    case False
    have n: "\<not> n < 10"
    proof
      assume "n < 10"
      with "1.prems" False show False
        by (simp add: show_nat_small show_nat_large show_nat_nonempty)
    qed
    from False n "1.prems"
    have "show_nat (m div 10) = show_nat (n div 10)"
      and d: "digit (m mod 10) = digit (n mod 10)"
      by (simp_all add: show_nat_large)
    with "1.IH" False have q: "m div 10 = n div 10" by simp
    have "m mod 10 = n mod 10" using d by (intro digit_inj) simp_all
    with q show ?thesis by (metis div_mult_mod_eq)
  qed
qed

text \<open>Spread reads as map override when the later object has each key once.\<close>

lemma map_of_spread:
  "distinct (map fst b) \<Longrightarrow> map_of (spread a b) = map_of a ++ map_of b"
proof (induction b arbitrary: a)
  case Nil
  then show ?case by (simp add: spread_def)
next
  case (Cons kv b)
  obtain k v where kv: "kv = (k, v)" by (cases kv)
  from Cons.prems kv have d: "distinct (map fst b)" and nk: "k \<notin> fst ` set b" by auto
  have "map_of (spread a (kv # b)) = map_of (spread (AList.update k v a) b)"
    by (simp add: spread_def kv)
  also have "\<dots> = map_of (AList.update k v a) ++ map_of b" using Cons.IH [OF d] .
  also have "\<dots> = map_of a ++ map_of (kv # b)"
  proof (rule ext)
    fix x
    have none: "map_of b k = None" using nk by (simp add: map_of_eq_None_iff)
    show "(map_of (AList.update k v a) ++ map_of b) x = (map_of a ++ map_of (kv # b)) x"
      using none by (cases "map_of b x") (auto simp: kv update_conv' map_add_def)
  qed
  finally show ?case .
qed

text \<open>The reduce over the files appends one entry per file, keyed by its index.\<close>

lemma files_map_fold:
  assumes "\<forall>k \<in> fst ` set acc. \<exists>j < n. k = show_nat j"
  shows "fold (\<lambda>(index, (path, file)) m.
                 AList.update (show_nat index) (JArr [path_json path]) m)
           (enumerate n files) acc
         = acc @ map (\<lambda>(index, (path, file)). (show_nat index, JArr [path_json path]))
                   (enumerate n files)"
  using assms
proof (induction files arbitrary: n acc)
  case Nil
  then show ?case by simp
next
  case (Cons pf files)
  obtain p f where pf: "pf = (p, f)" by (cases pf)
  have fresh: "show_nat n \<notin> fst ` set acc"
    using Cons.prems show_nat_inj by fastforce
  then have upd: "AList.update (show_nat n) (JArr [path_json p]) acc
                  = acc @ [(show_nat n, JArr [path_json p])]"
    by (induction acc) auto
  have inv: "\<forall>k \<in> fst ` set (acc @ [(show_nat n, JArr [path_json p])]).
               \<exists>j < Suc n. k = show_nat j"
    using Cons.prems less_Suc_eq by auto
  show ?case
    using Cons.IH [OF inv] by (simp add: pf upd)
qed

lemma files_map_entries:
  "files_map files
   = map (\<lambda>(index, (path, file)). (show_nat index, JArr [path_json path])) (enumerate 0 files)"
  unfolding files_map_def by (subst files_map_fold) simp_all

lemma hasOwnProperty_object:
  "''hasOwnProperty'' \<notin> fst ` set kvs \<Longrightarrow>
   hasOwnProperty (JObj kvs) key = Inr (key \<in> fst ` set kvs)"
  by (simp add: hasOwnProperty_def)

section \<open>Response classification\<close>

text \<open>
  C3, as amended. On the path through \<^verbatim>\<open>parseAndCheckResponse\<close> (the two always-multipart
  links): a body that \<^verbatim>\<open>JSON.parse\<close> rejects gives the parse error, carrying the response,
  the status and the text, whatever the status is; a body that parses gives the
  network error when the status is 300 or more; under a status below 300 a parsed object
  that has a \<^verbatim>\<open>data\<close> or an \<^verbatim>\<open>errors\<close> member (and no member named
  \<^verbatim>\<open>hasOwnProperty\<close>) is the result, and one that has neither gives the server data error
  naming the operation.
\<close>

theorem parseAndCheckResponse_classifies:
  "(JSON_parse env (bodyText r) = Inl e \<longrightarrow>
      parseAndCheckResponse env request r
      = Inl (e\<lparr>err_response := Some r, err_statusCode := Some (status r),
               err_bodyText := Some (bodyText r)\<rparr>))
   \<and> (JSON_parse env (bodyText r) = Inr v \<and> status r \<ge> 300 \<longrightarrow>
      parseAndCheckResponse env request r
      = throwServerError r v
          (''Response not successful: Received status code '' @ show_nat (status r)))
   \<and> (JSON_parse env (bodyText r) = Inr (JObj kvs) \<and> status r < 300
      \<and> ''hasOwnProperty'' \<notin> fst ` set kvs
      \<and> (''data'' \<in> fst ` set kvs \<or> ''errors'' \<in> fst ` set kvs) \<longrightarrow>
      parseAndCheckResponse env request r = Inr (JObj kvs))
   \<and> (JSON_parse env (bodyText r) = Inr (JObj kvs) \<and> status r < 300
      \<and> ''hasOwnProperty'' \<notin> fst ` set kvs
      \<and> ''data'' \<notin> fst ` set kvs \<and> ''errors'' \<notin> fst ` set kvs \<longrightarrow>
      parseAndCheckResponse env request r
      = throwServerError r (JObj kvs)
          (''Server response was missing for query '' @ [CHR 0x27]
           @ String (operationName request) @ [CHR 0x27] @ ''.''))"
  by (auto simp: parseAndCheckResponse_def hasOwnProperty_object)

text \<open>The four cases in the browser: a plain-text error page, an envelope under status 500,
  an envelope under status 200, and a body with neither member.\<close>

theorem parseAndCheckResponse_classifies_witness:
  \<open>parseAndCheckResponse browser plain_operation text_500
     = Inl (syntax_error\<lparr>err_response := Some text_500, err_statusCode := Some 500,
                         err_bodyText := Some ''Internal Server Error''\<rparr>)
   \<and> parseAndCheckResponse browser plain_operation data_500
     = throwServerError data_500 (JObj [(''data'', JObj [])])
         ''Response not successful: Received status code 500''
   \<and> parseAndCheckResponse browser plain_operation data_response
     = Inr (JObj [(''data'', JObj [])])
   \<and> parseAndCheckResponse browser plain_operation foo_response
     = throwServerError foo_response (JObj [(''foo'', JNum 1)])
         ''Server response was missing for query 'me'.''\<close>
  using
    parseAndCheckResponse_classifies [of browser text_500 syntax_error plain_operation]
    parseAndCheckResponse_classifies
      [of browser data_500 _ plain_operation "JObj [(''data'', JObj [])]"]
    parseAndCheckResponse_classifies
      [of browser data_response _ plain_operation _ "[(''data'', JObj [])]"]
    parseAndCheckResponse_classifies
      [of browser foo_response _ plain_operation _ "[(''foo'', JNum 1)]"]
  by (simp add: browser_def table_parse_def parse_table_def text_500_def data_500_def
        data_response_def foo_response_def plain_operation_def String_def
        show_nat.simps digit_def)

text \<open>The claim as written fails where it says that status 500 gives a network error with
  any body: a body that is not JSON gives the parse error, which has no \<open>err_result\<close>.\<close>

theorem status_500_text_body_counterexample:
  "parseAndCheckResponse browser plain_operation text_500
   = Inl \<lparr>err_name = ''SyntaxError'', err_message = ''Unexpected token in JSON'',
          err_response = Some text_500, err_statusCode = Some 500, err_result = None,
          err_bodyText = Some ''Internal Server Error'', err_parseError = None\<rparr>"
  by (simp add: parseAndCheckResponse_def browser_def table_parse_def parse_table_def
        text_500_def syntax_error_def host_error_def)

text \<open>
  C4, as amended. For every response with a status of 300 or more whose body parses, the
  network error is raised whatever the parsed body looks like; when the body does not parse,
  the parse error is raised instead, carrying the status: the body is parsed before the
  status is looked at.
\<close>

theorem status_checked_after_parse:
  "status r \<ge> 300 \<Longrightarrow>
   parseAndCheckResponse env request r
   = (case JSON_parse env (bodyText r) of
        Inl e \<Rightarrow>
          Inl (e\<lparr>err_response := Some r, err_statusCode := Some (status r),
                 err_bodyText := Some (bodyText r)\<rparr>)
      | Inr v \<Rightarrow>
          throwServerError r v
            (''Response not successful: Received status code '' @ show_nat (status r)))"
  by (simp add: parseAndCheckResponse_def split: sum.splits)

theorem status_checked_after_parse_witness:
  "(300::nat) \<le> status data_503
   \<and> parseAndCheckResponse browser upload_operation data_503
     = throwServerError data_503 (JObj [(''data'', JObj [])])
         ''Response not successful: Received status code 503''"
  using status_checked_after_parse [of data_503 browser upload_operation]
  by (simp add: browser_def table_parse_def parse_table_def data_503_def show_nat.simps
        digit_def)

theorem status_404_html_body_counterexample:
  "parseAndCheckResponse browser upload_operation html_404
   = Inl \<lparr>err_name = ''SyntaxError'', err_message = ''Unexpected token in JSON'',
          err_response = Some html_404, err_statusCode = Some 404, err_result = None,
          err_bodyText = Some ''<html>Not Found</html>'', err_parseError = None\<rparr>"
  by (simp add: parseAndCheckResponse_def browser_def table_parse_def parse_table_def
        html_404_def syntax_error_def host_error_def)

text \<open>\<^verbatim>\<open>jsonUploadLink\<close> does not go through \<^verbatim>\<open>parseAndCheckResponse\<close>: it reports a
  response that is not \<^verbatim>\<open>ok\<close> without reading the body, and hands every parsed body of an
  \<^verbatim>\<open>ok\<close> response to the observer, whatever its members.\<close>

lemma jsonUploadLink_settle_resolved:
  "snd (jsonUploadLink_settle env (Resolved r))
   = (if \<not> ok r
      then [ObserverError (new_Error (show_nat (status r) @ '' ('' @ statusText r @ '')''))]
      else case JSON_parse env (bodyText r) of
             Inl e \<Rightarrow> [ObserverError e]
           | Inr v \<Rightarrow> [ObserverNext v, ObserverComplete])"
  by (simp add: jsonUploadLink_settle_def)

section \<open>Facts about the extractor and the requests\<close>

text \<open>The definitions to unfold when a request is run on an example.\<close>

lemmas example_defs =
  browser_def table_parse_def parse_table_def syntax_error_def abortable_fetch_def
  data_response_def no_context_def json_link0_def multipart_link0_def
  upload_operation_def plain_operation_def

lemmas link_defs =
  jsonUploadLink_def multipartUploadLink_def createUploadLink_part_000_def
  warnIfNoFetch_def global_fetch_def createSignalIfSupported_def
  requestOperation_def merged_headers_def jsonUploadLink_request_def
  multipartUploadLink_request_def createUploadLink_part_000_request_def
  fetcherOptions_def caller_options_def operation_fields_def spread_http_def
  defaultHttpOptions_def extensions_text_def not_serializable_def
  jsonUploadLink_settle_def multipartUploadLink_settle_def catch_handler_def
  teardown_def thrown_def multipart_run_def multipartUploadLink_run_def
  createUploadLink_part_000_run_def jsonUploadLink_run_def
  spread_options_def spread_def members_def truthy_def String_def or_else_def
  no_options_def new_Error_def host_error_def files_map_def file_parts_def path_json_def
  parseAndCheckResponse_def hasOwnProperty_def throwServerError_def
  show_nat.simps digit_def show_int_def quote_def

lemma extractFiles_members_append:
  "extractFiles_members (xs @ ys) = extractFiles_members xs @ extractFiles_members ys"
  by (induction xs) auto

lemma extractFiles_member:
  "extractFiles_members [(k, x)] = map (under k) (extractFiles x)"
  by (simp add: under_def case_prod_unfold)

lemma requestOperation_files:
  "extractFiles (JObj (requestOperation env link op))
   = map (under ''variables'') (extractFiles (JObj (variables op)))
     @ (case extensions op of
          None \<Rightarrow> []
        | Some ext \<Rightarrow>
            if jl_includeExtensions link = Some True
            then map (under ''extensions'') (extractFiles (JObj ext)) else [])"
  by (cases "variables op")
     (auto simp: requestOperation_def extractFiles_members_append under_def case_prod_unfold
           split: option.splits)

lemma extractFiles_sound_aux:
  shows "\<forall>p f. (p, f) \<in> set (extractFiles t) \<longrightarrow> file_at t p f"
    and "\<forall>p f. (p, f) \<in> set (extractFiles_items i xs) \<longrightarrow>
           (\<exists>j q. p = Index (i + j) # q \<and> j < length xs \<and> file_at (xs ! j) q f)"
    and "\<forall>p f. (p, f) \<in> set (extractFiles_members kvs) \<longrightarrow>
           (\<exists>k q c. p = Key k # q \<and> (k, c) \<in> set kvs \<and> file_at c q f)"
proof (induction t and i xs and kvs rule: extractFiles_extractFiles_items_extractFiles_members.induct)
  case (2 xs)
  then show ?case by fastforce
next
  case (3 kvs)
  then show ?case by (fastforce simp: list_ex_iff)
next
  case (6 i x xs)
  show ?case
  proof (intro allI impI)
    fix p f
    assume "(p, f) \<in> set (extractFiles_items i (x # xs))"
    then consider q where "p = Index i # q" "(q, f) \<in> set (extractFiles x)"
      | "(p, f) \<in> set (extractFiles_items (Suc i) xs)"
      by auto
    then show "\<exists>j q. p = Index (i + j) # q \<and> j < length (x # xs) \<and> file_at ((x # xs) ! j) q f"
    proof cases
      case 1
      with "6.IH"(1) have "file_at x q f" by blast
      with 1 show ?thesis by (intro exI [of _ 0] exI [of _ q]) simp
    next
      case 2
      with "6.IH"(2) obtain j q where
        "p = Index (Suc i + j) # q" "j < length xs" "file_at (xs ! j) q f" by blast
      then show ?thesis by (intro exI [of _ "Suc j"] exI [of _ q]) simp
    qed
  qed
next
  case (8 k x kvs)
  then show ?case by fastforce
qed auto

lemma extractFiles_sound: "(p, f) \<in> set (extractFiles t) \<Longrightarrow> file_at t p f"
  using extractFiles_sound_aux(1) by blast

lemma extractFiles_complete_aux:
  shows "\<forall>p f. file_at t p f \<longrightarrow> (p, f) \<in> set (extractFiles t)"
    and "\<forall>j q f. j < length xs \<and> file_at (xs ! j) q f \<longrightarrow>
           (Index (i + j) # q, f) \<in> set (extractFiles_items i xs)"
    and "\<forall>k c q f. (k, c) \<in> set kvs \<and> file_at c q f \<longrightarrow>
           (Key k # q, f) \<in> set (extractFiles_members kvs)"
proof (induction t and i xs and kvs rule: extractFiles_extractFiles_items_extractFiles_members.induct)
  case (1 g)
  show ?case
  proof (intro allI impI)
    fix p f assume "file_at (JFile g) p f"
    then show "(p, f) \<in> set (extractFiles (JFile g))" by (cases p) auto
  qed
next
  case (2 xs)
  show ?case
  proof (intro allI impI)
    fix p f assume a: "file_at (JArr xs) p f"
    then obtain s q where p: "p = s # q" by (cases p) auto
    with a obtain j where "s = Index j" by (cases s) auto
    with a p 2 show "(p, f) \<in> set (extractFiles (JArr xs))" by fastforce
  qed
next
  case (3 kvs)
  show ?case
  proof (intro allI impI)
    fix p f assume a: "file_at (JObj kvs) p f"
    then obtain s q where p: "p = s # q" by (cases p) auto
    with a obtain k where "s = Key k" by (cases s) auto
    with a p 3 show "(p, f) \<in> set (extractFiles (JObj kvs))"
      by (fastforce simp: list_ex_iff)
  qed
next
  case (6 i x xs)
  show ?case
  proof (intro allI impI)
    fix j q f
    assume a: "j < length (x # xs) \<and> file_at ((x # xs) ! j) q f"
    show "(Index (i + j) # q, f) \<in> set (extractFiles_items i (x # xs))"
    proof (cases j)
      case 0
      with a "6.IH"(1) have "(q, f) \<in> set (extractFiles x)" by simp
      with 0 show ?thesis by force
    next
      case (Suc j')
      with a "6.IH"(2) have "(Index (Suc i + j') # q, f) \<in> set (extractFiles_items (Suc i) xs)"
        by simp
      with Suc show ?thesis by simp
    qed
  qed
next
  case (8 k x kvs)
  then show ?case by force
qed (auto elim: file_at.elims)

lemma extractFiles_complete: "file_at t p f \<Longrightarrow> (p, f) \<in> set (extractFiles t)"
  using extractFiles_complete_aux(1) by blast

lemma files_map_by_index:
  "files_map files
   = map (\<lambda>i. (show_nat i, JArr [path_json (fst (files ! i))])) [0..<length files]"
  by (rule nth_equalityI)
     (simp_all add: files_map_entries nth_enumerate_eq case_prod_unfold)

lemma files_map_keys: "map fst (files_map files) = map show_nat [0..<length files]"
  by (simp add: files_map_by_index comp_def)

lemma files_map_distinct: "distinct (map fst (files_map files))"
  unfolding files_map_keys
  by (simp add: distinct_map inj_on_def show_nat_inj)

lemma fetcherOptions_signal:
  "signal (fetcherOptions env link ctx base parts)
   = (if AbortController env then Some AbortSignal else signal (caller_options link ctx))"
  by (simp add: fetcherOptions_def createSignalIfSupported_def spread_options_def
        or_else_def no_options_def Let_def split: option.splits)

lemma multipartUploadLink_request_call:
  "multipartUploadLink_request env link op ctx = Inr call \<Longrightarrow>
   call_controller call = fst (createSignalIfSupported env)
   \<and> signal (call_options call)
     = (if AbortController env then Some AbortSignal else signal (caller_options link ctx))"
  by (auto simp: multipartUploadLink_request_def Let_def fetcherOptions_signal split: sum.splits)

lemma createUploadLink_part_000_request_call:
  "createUploadLink_part_000_request env link op ctx = Inr call \<Longrightarrow>
   call_controller call = fst (createSignalIfSupported env)
   \<and> signal (call_options call)
     = (if AbortController env then Some AbortSignal else signal (caller_options link ctx))"
  by (auto simp: createUploadLink_part_000_request_def Let_def fetcherOptions_signal split: sum.splits)

lemma spread_empty [simp]: "spread a [] = a"
  by (simp add: spread_def)

lemma fetcherOptions_headers:
  "headers (fetcherOptions env link ctx base parts)
   = Some (spread (spread base (members (ro_headers (requestOptions link))))
             (members (ctx_headers ctx)))"
  by (simp add: fetcherOptions_def Let_def members_def split: option.splits)

lemma multipartUploadLink_request_headers:
  "multipartUploadLink_request env link op ctx = Inr call \<Longrightarrow>
   headers (call_options call)
   = Some (spread (spread [(''accept'', ''*/*''), (''content-type'', ''multipart/form-data'')]
                     (members (ro_headers (requestOptions link))))
             (members (ctx_headers ctx)))"
  by (auto simp: multipartUploadLink_request_def Let_def fetcherOptions_headers split: sum.splits)

lemma jsonUploadLink_request_headers:
  "jsonUploadLink_request env link op ctx = Inr (uri, opts) \<Longrightarrow>
   headers opts
   = Some (if extractFiles (JObj (requestOperation env link op)) = []
           then AList.update ''content-type'' ''application/json'' (merged_headers link ctx)
           else merged_headers link ctx)"
  by (auto simp: jsonUploadLink_request_def Let_def members_def split: sum.splits if_splits)

lemma jsonUploadLink_request_body:
  "jsonUploadLink_request env link op ctx = Inr (uri, opts) \<Longrightarrow>
   extractFiles (JObj (requestOperation env link op)) = [] \<Longrightarrow>
   \<exists>bodyJson. JSON_stringify env (JObj (requestOperation env link op)) = Inr bodyJson
     \<and> body opts = Some (Text bodyJson)"
  by (auto simp: jsonUploadLink_request_def Let_def split: sum.splits if_splits)

lemma no_file_no_extraction: "(\<forall>p f. \<not> file_at t p f) \<Longrightarrow> extractFiles t = []"
proof (rule ccontr)
  assume none: "\<forall>p f. \<not> file_at t p f" and "extractFiles t \<noteq> []"
  then obtain p f where "(p, f) \<in> set (extractFiles t)" by (cases "extractFiles t") auto
  then have "file_at t p f" by (rule extractFiles_sound)
  with none show False by blast
qed

lemma jsonUploadLink_browser: "jsonUploadLink browser no_link_options = Inr json_link0"
  by (simp add: example_defs link_defs no_link_options_def)

lemma multipartUploadLink_browser:
  "multipartUploadLink browser no_link_options = Inr multipart_link0"
  by (simp add: example_defs link_defs no_link_options_def)

lemma createUploadLink_multipart:
  "createUploadLink browser (no_link_options\<lparr>opt_multipart := Some True\<rparr>)
   = Inr (MultipartLink multipart_link0)"
  by (simp add: createUploadLink_def example_defs link_defs no_link_options_def)

section \<open>The wire body\<close>

text \<open>
  C1, as amended. For every operation sent through \<^verbatim>\<open>jsonUploadLink\<close> whose variables hold a
  file at some path, the body is multipart: the field \<^verbatim>\<open>operations\<close>, then the field
  \<^verbatim>\<open>map\<close>, then the files. The \<^verbatim>\<open>map\<close> field is the text of an object with exactly one
  entry per extracted file, keyed by the file's zero-based index in decimal, all keys
  different, whose value is the one-element list of the file's path in the
  \<^verbatim>\<open>operations\<close> record. The files of the variables come first: the path of the \<open>i\<close>-th
  is the key \<^verbatim>\<open>variables\<close> followed by its true location in the variables, and every
  file of the variables is among them.
\<close>

theorem jsonUploadLink_map_field:
  fixes env link op ctx
  defines "files \<equiv> extractFiles (JObj (requestOperation env link op))"
      and "vfiles \<equiv> extractFiles (JObj (variables op))"
  assumes req: "jsonUploadLink_request env link op ctx = Inr (uri, opts)"
      and has_file: "file_at (JObj (variables op)) p0 f0"
  shows "(\<exists>operations mapText.
            body opts = Some (FormData ([Field ''operations'' operations, Field ''map'' mapText]
                                         @ file_parts files))
            \<and> JSON_stringify env (JObj (files_map files)) = Inr mapText)
       \<and> files_map files
          = map (\<lambda>i. (show_nat i, JArr [path_json (fst (files ! i))])) [0..<length files]
       \<and> distinct (map fst (files_map files))
       \<and> vfiles \<noteq> [] \<and> length vfiles \<le> length files
       \<and> (\<forall>i<length vfiles.
             files ! i = (Key ''variables'' # fst (vfiles ! i), snd (vfiles ! i))
             \<and> file_at (JObj (variables op)) (fst (vfiles ! i)) (snd (vfiles ! i)))
       \<and> (\<forall>p f. file_at (JObj (variables op)) p f \<longrightarrow> (\<exists>i<length vfiles. vfiles ! i = (p, f)))"
proof -
  obtain rest where split: "files = map (under ''variables'') vfiles @ rest"
    using requestOperation_files [of env link op] unfolding files_def vfiles_def by blast
  then have len: "length vfiles \<le> length files" by simp
  have v: "vfiles \<noteq> []"
    using extractFiles_complete [OF has_file] unfolding vfiles_def by auto
  with len have nonempty: "length files \<noteq> 0" by auto
  have body: "\<exists>operations mapText.
            body opts = Some (FormData ([Field ''operations'' operations, Field ''map'' mapText]
                                         @ file_parts files))
            \<and> JSON_stringify env (JObj (files_map files)) = Inr mapText"
    using req nonempty unfolding files_def
    by (auto simp: jsonUploadLink_request_def Let_def split: sum.splits if_splits)
  have loc: "files ! i = (Key ''variables'' # fst (vfiles ! i), snd (vfiles ! i))
             \<and> file_at (JObj (variables op)) (fst (vfiles ! i)) (snd (vfiles ! i))"
    if "i < length vfiles" for i
  proof -
    have "files ! i = under ''variables'' (vfiles ! i)"
      using that by (subst split) (simp add: nth_append)
    moreover have "file_at (JObj (variables op)) (fst (vfiles ! i)) (snd (vfiles ! i))"
      using that unfolding vfiles_def by (intro extractFiles_sound) simp
    ultimately show ?thesis by (simp add: under_def)
  qed
  have all: "\<exists>i<length vfiles. vfiles ! i = (p, f)" if "file_at (JObj (variables op)) p f" for p f
    using extractFiles_complete [OF that] unfolding vfiles_def by (simp add: in_set_conv_nth)
  have idx: "files_map files
             = map (\<lambda>i. (show_nat i, JArr [path_json (fst (files ! i))])) [0..<length files]"
    by (rule files_map_by_index)
  have dist: "distinct (map fst (files_map files))" by (rule files_map_distinct)
  from body idx dist v len loc all show ?thesis by blast
qed

text \<open>The upload of two files in the browser.\<close>

lemma upload_request:
  "jsonUploadLink_request browser json_link0 upload_operation no_context = Inr upload_call"
  by (simp add: example_defs link_defs upload_call_def)

lemma upload_files:
  "extractFiles (JObj (requestOperation browser json_link0 upload_operation))
   = [([Key ''variables'', Key ''docs'', Index 0], File ''a.txt'' ''A''),
      ([Key ''variables'', Key ''docs'', Index 1], File ''b.txt'' ''B'')]"
  by (simp add: example_defs link_defs)

theorem jsonUploadLink_map_field_witness:
  \<open>jsonUploadLink_request browser json_link0 upload_operation no_context = Inr upload_call
   \<and> file_at (JObj (variables upload_operation)) [Key ''docs'', Index 1] (File ''b.txt'' ''B'')
   \<and> files_map (extractFiles (JObj (requestOperation browser json_link0 upload_operation)))
     = [(''0'', JArr [JArr [JStr ''variables'', JStr ''docs'', JNum 0]]),
        (''1'', JArr [JArr [JStr ''variables'', JStr ''docs'', JNum 1]])]
   \<and> JSON_stringify browser
        (JObj (files_map
                 (extractFiles (JObj (requestOperation browser json_link0 upload_operation)))))
     = Inr ''{"0":[["variables","docs",0]],"1":[["variables","docs",1]]}''\<close>
proof -
  have r: "jsonUploadLink_request browser json_link0 upload_operation no_context
           = Inr (fst upload_call, snd upload_call)"
    by (simp add: upload_request)
  have f: "file_at (JObj (variables upload_operation)) [Key ''docs'', Index 1]
             (File ''b.txt'' ''B'')"
    by (simp add: upload_operation_def)
  show ?thesis
    using jsonUploadLink_map_field [OF r f] r f
    by (simp add: upload_files example_defs link_defs upload_call_def)
qed

text \<open>The claim as written fails on the two always-multipart links: the same upload
  through \<^verbatim>\<open>multipartUploadLink\<close> has no field named \<^verbatim>\<open>map\<close> (the index object is sent
  as \<^verbatim>\<open>files\<close>, with paths counted from the variables), and through the
  \<^verbatim>\<open>createUploadLink\<close> of \<^verbatim>\<open>src/unnamed/part_000\<close> no index object is sent at all.\<close>

theorem multipartUploadLink_no_map_field_counterexample:
  "map field_names
     (sent (multipartUploadLink_run browser multipart_link0 upload_operation no_context False))
   = [[''files'', ''0'', ''1'', ''operationName'', ''variables'', ''query'']]
   \<and> map field_names
       (sent (createUploadLink_part_000_run browser multipart_link0 upload_operation
                no_context False))
     = [[''file'', ''file'', ''operationName'', ''variables'', ''query'']]"
  by (simp add: example_defs link_defs sent_def field_names_def multipart_parts_def)

text \<open>
  C2, as amended. For every operation sent through \<^verbatim>\<open>jsonUploadLink\<close> that holds no file
  anywhere in its variables, nor in its extensions when the link includes them, the body is
  the JSON text of the \<^verbatim>\<open>operations\<close> record, no multipart part is created, and the
  header \<^verbatim>\<open>content-type: application/json\<close> is set.
\<close>

theorem jsonUploadLink_json_body:
  assumes req: "jsonUploadLink_request env link op ctx = Inr (uri, opts)"
      and vars: "\<forall>p f. \<not> file_at (JObj (variables op)) p f"
      and exts: "\<forall>ext p f. extensions op = Some ext \<and> jl_includeExtensions link = Some True
                   \<longrightarrow> \<not> file_at (JObj ext) p f"
  shows "\<exists>bodyJson.
           JSON_stringify env (JObj (requestOperation env link op)) = Inr bodyJson
           \<and> body opts = Some (Text bodyJson)
           \<and> multipart_parts opts = None
           \<and> header ''content-type'' opts = Some ''application/json''"
proof -
  have v: "extractFiles (JObj (variables op)) = []"
    using vars by (rule no_file_no_extraction)
  have e: "extractFiles (JObj ext) = []"
    if "extensions op = Some ext" "jl_includeExtensions link = Some True" for ext
    using exts that by (intro no_file_no_extraction) blast
  have none: "extractFiles (JObj (requestOperation env link op)) = []"
    unfolding requestOperation_files using v e by (simp split: option.splits)
  from jsonUploadLink_request_body [OF req none] obtain bodyJson where
    b: "JSON_stringify env (JObj (requestOperation env link op)) = Inr bodyJson"
       "body opts = Some (Text bodyJson)" by blast
  have "header ''content-type'' opts = Some ''application/json''"
    using jsonUploadLink_request_headers [OF req] none
    by (simp add: header_def members_def update_conv')
  with b show ?thesis by (auto simp: multipart_parts_def)
qed

theorem jsonUploadLink_json_body_witness:
  \<open>jsonUploadLink_request browser json_link0 plain_operation no_context = Inr plain_call
   \<and> (\<forall>p f. \<not> file_at (JObj (variables plain_operation)) p f)
   \<and> JSON_stringify browser (JObj (requestOperation browser json_link0 plain_operation))
     = Inr ''{"query":"{ me }","operationName":"me","variables":{"id":7}}''
   \<and> body (snd plain_call)
     = Some (Text ''{"query":"{ me }","operationName":"me","variables":{"id":7}}'')
   \<and> multipart_parts (snd plain_call) = None
   \<and> header ''content-type'' (snd plain_call) = Some ''application/json''\<close>
proof -
  have r: "jsonUploadLink_request browser json_link0 plain_operation no_context
           = Inr (fst plain_call, snd plain_call)"
    by (simp add: example_defs link_defs plain_call_def)
  have v: "\<forall>p f. \<not> file_at (JObj (variables plain_operation)) p f"
    using extractFiles_complete [of "JObj (variables plain_operation)"]
    by (auto simp: plain_operation_def)
  have e: "\<forall>ext p f. extensions plain_operation = Some ext
             \<and> jl_includeExtensions json_link0 = Some True \<longrightarrow> \<not> file_at (JObj ext) p f"
    by (simp add: plain_operation_def)
  show ?thesis
    using jsonUploadLink_json_body [OF r v e] r v
    by (simp add: example_defs link_defs plain_call_def header_def multipart_parts_def)
qed

text \<open>The claim as written fails on \<^verbatim>\<open>multipartUploadLink\<close>, the link that
  \<^verbatim>\<open>createUploadLink\<close> returns under the option \<^verbatim>\<open>multipart\<close>: the query without files
  goes out as a multipart body under a multipart content type.\<close>

theorem multipartUploadLink_always_multipart_counterexample:
  \<open>map multipart_parts
     (sent (multipartUploadLink_run browser multipart_link0 plain_operation no_context False))
   = [Some [Field ''files'' ''{}'', Field ''operationName'' ''me'',
            Field ''variables'' ''{"id":7}'', Field ''query'' ''{ me }'']]
   \<and> map (header ''content-type'')
       (sent (multipartUploadLink_run browser multipart_link0 plain_operation no_context False))
     = [Some ''multipart/form-data'']
   \<and> map multipart_parts
       (sent (createUploadLink_part_000_run browser multipart_link0 plain_operation
                no_context False))
     = [Some [Field ''operationName'' ''me'', Field ''variables'' ''{"id":7}'',
              Field ''query'' ''{ me }'']]\<close>
  by (simp add: example_defs link_defs sent_def header_def multipart_parts_def)

text \<open>Unless the link's or the context's headers name \<^verbatim>\<open>content-type\<close> themselves, every
  request of \<^verbatim>\<open>multipartUploadLink\<close> carries the content type the link starts from.\<close>

lemma multipartUploadLink_content_type:
  assumes "multipartUploadLink_request env link op ctx = Inr call"
      and "distinct (map fst (members (ro_headers (requestOptions link))))"
      and "distinct (map fst (members (ctx_headers ctx)))"
      and "''content-type'' \<notin> fst ` set (members (ro_headers (requestOptions link)))"
      and "''content-type'' \<notin> fst ` set (members (ctx_headers ctx))"
  shows "header ''content-type'' (call_options call) = Some ''multipart/form-data''"
proof -
  have "map_of (members (ro_headers (requestOptions link))) ''content-type'' = None"
    and "map_of (members (ctx_headers ctx)) ''content-type'' = None"
    using assms(4,5) by (simp_all add: map_of_eq_None_iff)
  then show ?thesis
    using multipartUploadLink_request_headers [OF assms(1)] assms(2,3)
    by (simp add: header_def members_def [of "Some _"] map_of_spread map_add_def)
qed

text \<open>
  C5. No \<^verbatim>\<open>content-type\<close> header is to be set on a multipart request. The multipart branch
  of \<^verbatim>\<open>jsonUploadLink\<close> and the \<^verbatim>\<open>createUploadLink\<close> of \<^verbatim>\<open>src/unnamed/part_000\<close> set none;
  \<^verbatim>\<open>multipartUploadLink\<close> sets \<^verbatim>\<open>content-type: multipart/form-data\<close>, without a boundary,
  on every request.
\<close>

theorem multipartUploadLink_sets_content_type:
  "map (header ''content-type'')
     (sent (multipartUploadLink_run browser multipart_link0 upload_operation no_context False))
   = [Some ''multipart/form-data'']
   \<and> map (header ''content-type'')
       (sent (jsonUploadLink_run browser json_link0 upload_operation no_context False))
     = [None]
   \<and> map (header ''content-type'')
       (sent (createUploadLink_part_000_run browser multipart_link0 upload_operation
                no_context False))
     = [None]"
  by (simp add: example_defs link_defs sent_def header_def)

section \<open>Headers\<close>

text \<open>
  C6, as amended. For every pair of header sets (the link's, the context's), each holding a
  name once, the headers of the request carry, for every name that one of the two sets
  holds, the context's value if the context holds that very name and the link's value
  otherwise. Names are compared exactly: names that differ only in case are different
  names. In \<^verbatim>\<open>jsonUploadLink\<close> this excepts \<^verbatim>\<open>content-type\<close> on a JSON body, which the
  link sets itself.
\<close>

theorem headers_merge_exact_names:
  assumes "distinct (map fst (members (ctx_headers ctx)))"
      and "distinct (map fst (members (linkHeaders jl)))"
      and "distinct (map fst (members (ro_headers (requestOptions ml))))"
  shows "(\<forall>uri opts k. jsonUploadLink_request env jl op ctx = Inr (uri, opts)
            \<and> k \<in> fst ` set (members (linkHeaders jl)) \<union> fst ` set (members (ctx_headers ctx))
            \<and> (k = ''content-type'' \<longrightarrow> multipart_parts opts \<noteq> None)
            \<longrightarrow> header k opts
                = or_else (map_of (members (ctx_headers ctx)) k)
                    (map_of (members (linkHeaders jl)) k))
       \<and> (\<forall>call k. multipartUploadLink_request env ml op ctx = Inr call
            \<and> k \<in> fst ` set (members (ro_headers (requestOptions ml)))
                  \<union> fst ` set (members (ctx_headers ctx))
            \<longrightarrow> header k (call_options call)
                = or_else (map_of (members (ctx_headers ctx)) k)
                    (map_of (members (ro_headers (requestOptions ml))) k))"
proof -
  have merge: "map_of (spread (spread base l) c) k = or_else (map_of c k) (map_of l k)"
    if "distinct (map fst c)" "distinct (map fst l)" "k \<in> fst ` set l \<union> fst ` set c"
    for base l c :: "string object" and k
  proof -
    have "map_of l k \<noteq> None \<or> map_of c k \<noteq> None"
      using that(3) by (auto simp: map_of_eq_None_iff)
    then show ?thesis
      using that(1,2)
      by (auto simp: map_of_spread map_add_def or_else_def split: option.splits)
  qed
  have j: "header k opts
           = or_else (map_of (members (ctx_headers ctx)) k) (map_of (members (linkHeaders jl)) k)"
    if req: "jsonUploadLink_request env jl op ctx = Inr (uri, opts)"
      and k: "k \<in> fst ` set (members (linkHeaders jl)) \<union> fst ` set (members (ctx_headers ctx))"
      and ct: "k = ''content-type'' \<longrightarrow> multipart_parts opts \<noteq> None"
    for uri opts k
  proof -
    have m: "map_of (merged_headers jl ctx) k
             = or_else (map_of (members (ctx_headers ctx)) k) (map_of (members (linkHeaders jl)) k)"
      unfolding merged_headers_def using assms(1,2) k by (intro merge)
    show ?thesis
    proof (cases "extractFiles (JObj (requestOperation env jl op)) = []")
      case True
      from jsonUploadLink_request_body [OF req True] have "multipart_parts opts = None"
        by (auto simp: multipart_parts_def)
      with ct have "k \<noteq> ''content-type''" by blast
      with jsonUploadLink_request_headers [OF req] True m show ?thesis
        by (simp add: header_def members_def update_conv')
    next
      case False
      with jsonUploadLink_request_headers [OF req] m show ?thesis
        by (simp add: header_def members_def)
    qed
  qed
  have mp: "header k (call_options call)
            = or_else (map_of (members (ctx_headers ctx)) k)
                (map_of (members (ro_headers (requestOptions ml))) k)"
    if req: "multipartUploadLink_request env ml op ctx = Inr call"
      and k: "k \<in> fst ` set (members (ro_headers (requestOptions ml)))
                  \<union> fst ` set (members (ctx_headers ctx))"
    for call k
    using multipartUploadLink_request_headers [OF req] merge [OF assms(1,3) k]
    by (simp add: header_def members_def)
  from j mp show ?thesis by blast
qed

text \<open>The link default \<^verbatim>\<open>{a: "1"}\<close> under the context \<^verbatim>\<open>{a: "2", b: "3"}\<close>.\<close>

theorem headers_merge_exact_names_witness:
  "distinct (map fst (members (ctx_headers context_a2b3)))
   \<and> distinct (map fst (members (linkHeaders json_link_a1)))
   \<and> distinct (map fst (members (ro_headers (requestOptions multipart_link_a1))))
   \<and> map headers
       (sent (jsonUploadLink_run browser json_link_a1 upload_operation context_a2b3 False))
     = [Some [(''a'', ''2''), (''b'', ''3'')]]
   \<and> map headers
       (sent (multipartUploadLink_run browser multipart_link_a1 upload_operation
                context_a2b3 False))
     = [Some [(''accept'', ''*/*''), (''content-type'', ''multipart/form-data''),
              (''a'', ''2''), (''b'', ''3'')]]"
proof -
  have c: "distinct (map fst (members (ctx_headers context_a2b3)))"
    by (simp add: context_a2b3_def no_context_def members_def)
  have j: "distinct (map fst (members (linkHeaders json_link_a1)))"
    by (simp add: json_link_a1_def json_link0_def members_def)
  have m: "distinct (map fst (members (ro_headers (requestOptions multipart_link_a1))))"
    by (simp add: multipart_link_a1_def multipart_link0_def members_def)
  show ?thesis
    using headers_merge_exact_names [OF c j m, of browser upload_operation] c j m
    by (simp add: example_defs link_defs json_link_a1_def multipart_link_a1_def
          context_a2b3_def sent_def)
qed

text \<open>The claim as written fails on names that differ in case: the link default
  \<^verbatim>\<open>{A: "1"}\<close> survives beside the context's \<^verbatim>\<open>{a: "2", b: "3"}\<close>.\<close>

theorem headers_case_sensitive_counterexample:
  "map headers
     (sent (jsonUploadLink_run browser json_link_A1 upload_operation context_a2b3 False))
   = [Some [(''A'', ''1''), (''a'', ''2''), (''b'', ''3'')]]"
  by (simp add: example_defs link_defs json_link_A1_def context_a2b3_def sent_def)

section \<open>Cancellation\<close>




text \<open>
  C10, as amended. Where \<^verbatim>\<open>AbortController\<close> is not defined,
  \<^verbatim>\<open>createSignalIfSupported\<close> returns \<^verbatim>\<open>{ controller: false, signal: false }\<close>; the two
  links that use it attach no signal of their own to the call, which carries under that key
  exactly what the caller's own \<^verbatim>\<open>fetchOptions\<close> hold, and so none when they hold none;
  their teardown aborts nothing; and a cancelled subscription runs exactly as one that is
  not cancelled.
\<close>

theorem no_AbortController_no_cancellation:
  assumes "\<not> AbortController env"
  shows "createSignalIfSupported env = (None, None)
    \<and> (\<forall>call. multipartUploadLink_request env link op ctx = Inr call \<longrightarrow>
          signal (call_options call) = signal (caller_options link ctx)
          \<and> \<not> teardown (call_controller call))
    \<and> (\<forall>call. createUploadLink_part_000_request env link op ctx = Inr call \<longrightarrow>
          signal (call_options call) = signal (caller_options link ctx)
          \<and> \<not> teardown (call_controller call))
    \<and> \<not> aborted (multipartUploadLink_run env link op ctx True)
    \<and> multipartUploadLink_run env link op ctx True
      = multipartUploadLink_run env link op ctx False
    \<and> \<not> aborted (createUploadLink_part_000_run env link op ctx True)
    \<and> createUploadLink_part_000_run env link op ctx True
      = createUploadLink_part_000_run env link op ctx False"
proof -
  have sig: "createSignalIfSupported env = (None, None)"
    using assms by (simp add: createSignalIfSupported_def)
  have m: "signal (call_options call) = signal (caller_options link ctx)
           \<and> \<not> teardown (call_controller call)"
    if "multipartUploadLink_request env link op ctx = Inr call" for call
    using multipartUploadLink_request_call [OF that] assms sig by (simp add: teardown_def)
  have p: "signal (call_options call) = signal (caller_options link ctx)
           \<and> \<not> teardown (call_controller call)"
    if "createUploadLink_part_000_request env link op ctx = Inr call" for call
    using createUploadLink_part_000_request_call [OF that] assms sig by (simp add: teardown_def)
  have run: "\<not> aborted (multipart_run env link op request True)
             \<and> multipart_run env link op request True = multipart_run env link op request False"
    if "\<forall>call. request = Inr call \<longrightarrow> \<not> teardown (call_controller call)" for request
    using that by (cases request) (simp_all add: multipart_run_def thrown_def Let_def)
  have r1: "\<not> aborted (multipartUploadLink_run env link op ctx True)
            \<and> multipartUploadLink_run env link op ctx True
              = multipartUploadLink_run env link op ctx False"
    unfolding multipartUploadLink_run_def using m by (intro run) blast
  have r2: "\<not> aborted (createUploadLink_part_000_run env link op ctx True)
            \<and> createUploadLink_part_000_run env link op ctx True
              = createUploadLink_part_000_run env link op ctx False"
    unfolding createUploadLink_part_000_run_def using p by (intro run) blast
  from sig m p r1 r2 show ?thesis by blast
qed

theorem no_AbortController_no_cancellation_witness:
  "\<not> AbortController old_browser
   \<and> createSignalIfSupported old_browser = (None, None)
   \<and> signal (caller_options multipart_link0 no_context) = None
   \<and> map signal
       (sent (multipartUploadLink_run old_browser multipart_link0 plain_operation
                no_context True))
     = [None]
   \<and> \<not> aborted
         (multipartUploadLink_run old_browser multipart_link0 plain_operation no_context True)
   \<and> observer
       (multipartUploadLink_run old_browser multipart_link0 plain_operation no_context True)
     = [ObserverNext (JObj [(''data'', JObj [])]), ObserverComplete]"
  using no_AbortController_no_cancellation
          [of old_browser multipart_link0 plain_operation no_context]
  by (simp add: example_defs link_defs old_browser_def sent_def)

text \<open>The claim as written fails where it says that no signal is attached to the call: the
  caller's \<^verbatim>\<open>fetchOptions\<close> are spread into the options of the call, so a signal they hold
  goes out with it. The link still aborts nothing and hands the result to its observer.\<close>

theorem caller_signal_counterexample:
  "map signal
     (sent (multipartUploadLink_run old_browser multipart_link0 plain_operation
              signal_context True))
   = [Some AbortSignal]
   \<and> map signal
       (sent (createUploadLink_part_000_run old_browser multipart_link0 plain_operation
                signal_context True))
     = [Some AbortSignal]
   \<and> aborted
       (multipartUploadLink_run old_browser multipart_link0 plain_operation signal_context True)
     = False
   \<and> observer
       (multipartUploadLink_run old_browser multipart_link0 plain_operation signal_context True)
     = [ObserverNext (JObj [(''data'', JObj [])]), ObserverComplete]"
  by (simp add: example_defs link_defs old_browser_def signal_context_def sent_def)

section \<open>Construction without fetch\<close>

text \<open>Where neither a fetch is passed nor a global one exists, \<^verbatim>\<open>multipartUploadLink\<close>
  fails in its constructor with the guidance of \<^verbatim>\<open>warnIfNoFetch\<close>.\<close>

lemma multipartUploadLink_without_fetch:
  "opt_fetch opts = None \<Longrightarrow> fetch env = None \<Longrightarrow>
   multipartUploadLink env opts
   = Inl (new_Error (guidance (if window env then ''unfetch'' else ''node-fetch'')))"
  by (simp add: multipartUploadLink_def warnIfNoFetch_def)

lemma jsonUploadLink_ReferenceError:
  "opt_fetch opts = None \<Longrightarrow> fetch env = None \<Longrightarrow>
   jsonUploadLink env opts = Inl (host_error ''ReferenceError'' ''fetch is not defined'')"
  by (simp add: jsonUploadLink_def global_fetch_def)

text \<open>
  C8. Constructing a link with no fetch passed and no global fetch is to fail at once with
  an error that carries guidance. \<^verbatim>\<open>multipartUploadLink\<close> does; \<^verbatim>\<open>jsonUploadLink\<close> never
  calls \<^verbatim>\<open>warnIfNoFetch\<close>: its constructor fails at once too, but with the host's
  \<^verbatim>\<open>ReferenceError\<close> from the default \<^verbatim>\<open>fetch: linkFetch = fetch\<close>, which carries no
  guidance.
\<close>

theorem jsonUploadLink_without_fetch:
  "jsonUploadLink bare_node no_link_options
   = Inl (host_error ''ReferenceError'' ''fetch is not defined'')
   \<and> multipartUploadLink bare_node no_link_options
     = Inl (new_Error (guidance ''node-fetch''))"
  by (simp add: example_defs link_defs bare_node_def no_link_options_def)

section \<open>Variables that do not serialise\<close>

text \<open>\<^verbatim>\<open>multipartUploadLink\<close> wraps the failure of \<^verbatim>\<open>JSON.stringify(variables)\<close> and makes no
  fetch call.\<close>

lemma multipartUploadLink_not_serializable:
  assumes "JSON_stringify env (JObj (files_map (extractFiles (JObj (variables op))))) = Inr t"
      and "JSON_stringify env (JObj (variables op)) = Inl e"
  shows "multipartUploadLink_run env link op ctx cancel = thrown (not_serializable e)"
  using assms
  by (simp add: multipartUploadLink_run_def multipart_run_def multipartUploadLink_request_def)

lemma createUploadLink_part_000_not_serializable:
  assumes "JSON_stringify env (JObj (variables op)) = Inl e"
  shows "createUploadLink_part_000_run env link op ctx cancel = thrown (not_serializable e)"
  using assms
  by (simp add: createUploadLink_part_000_run_def multipart_run_def
        createUploadLink_part_000_request_def)

text \<open>\<^verbatim>\<open>jsonUploadLink\<close> lets the failure of \<^verbatim>\<open>JSON.stringify(requestOperation)\<close> through as
  it is.\<close>

lemma jsonUploadLink_stringify_failure:
  assumes "JSON_stringify env (JObj (requestOperation env link op)) = Inl e"
  shows "jsonUploadLink_run env link op ctx cancel = thrown e"
  using assms by (simp add: jsonUploadLink_run_def jsonUploadLink_request_def Let_def)

text \<open>
  C9. Variables that cannot be serialised are to fail the request with an error tagged as a
  payload serialisation failure, with no fetch call. \<^verbatim>\<open>multipartUploadLink\<close> does so;
  \<^verbatim>\<open>jsonUploadLink\<close> calls \<^verbatim>\<open>JSON.stringify\<close> outside any \<^verbatim>\<open>try\<close>: it makes no fetch call
  either, but the error that reaches the observer is the serialiser's own, untagged.
\<close>

theorem jsonUploadLink_not_serializable:
  "jsonUploadLink_run browser json_link0 bigint_operation no_context False
   = thrown (host_error ''TypeError'' ''Do not know how to serialize a BigInt'')
   \<and> multipartUploadLink_run browser multipart_link0 bigint_operation no_context False
     = thrown (not_serializable
                 (host_error ''TypeError'' ''Do not know how to serialize a BigInt''))
   \<and> createUploadLink_part_000_run browser multipart_link0 bigint_operation no_context False
     = thrown (not_serializable
                 (host_error ''TypeError'' ''Do not know how to serialize a BigInt''))"
  by (simp add: example_defs link_defs bigint_operation_def)

end
